theory Spec2Isabelle
  imports Main "HOL-Library.Sublist"
begin

section \<open>CoPilot backend: reply generator and session/chat handlers\<close>

text \<open>
  A shallow embedding of \<^verbatim>\<open>main.py\<close>. The reply generator
  \<^verbatim>\<open>_generate_assistant_reply\<close> and the handlers \<^verbatim>\<open>create_session\<close>,
  \<^verbatim>\<open>list_messages\<close>, \<^verbatim>\<open>chat\<close> and \<^verbatim>\<open>get_preview\<close> are translated
  statement by statement. Python dictionaries built by the generator are association
  lists of a small value type; documents of the store are records with the fields of the
  schema classes; exceptions are values of the type \<open>error\<close>.
\<close>

subsection \<open>Python strings\<close>

text \<open>
  A Python \<^verbatim>\<open>str\<close> is a sequence of Unicode code points, here a list of natural
  numbers; \<^verbatim>\<open>len\<close> and slicing count code points. A string literal of the source is
  the list of the codes of its characters.
\<close>

type_synonym pystr = "nat list"

definition lit :: "string \<Rightarrow> pystr" where
  "lit s = map of_char s"

text \<open>
  The code points that \<^verbatim>\<open>str.split()\<close> and \<^verbatim>\<open>str.strip()\<close> treat as whitespace:
  those of general category Zs or of bidirectional class WS, B or S, that is U+0009 to
  U+000D, U+001C to U+0020, U+0085, U+00A0, U+1680, U+2000 to U+200A, U+2028, U+2029,
  U+202F, U+205F and U+3000.
\<close>

definition is_space :: "nat \<Rightarrow> bool" where
  "is_space c =
     ((9 \<le> c \<and> c \<le> 13) \<or> (28 \<le> c \<and> c \<le> 32) \<or> c = 133 \<or> c = 160 \<or> c = 5760 \<or>
      (8192 \<le> c \<and> c \<le> 8202) \<or> c = 8232 \<or> c = 8233 \<or> c = 8239 \<or> c = 8287 \<or> c = 12288)"

text \<open>\<^verbatim>\<open>s.strip()\<close>: leading and trailing whitespace removed.\<close>

definition py_strip :: "pystr \<Rightarrow> pystr" where
  "py_strip s = rev (dropWhile is_space (rev (dropWhile is_space s)))"

text \<open>
  \<^verbatim>\<open>s.split()\<close>: the maximal runs of non-whitespace characters, in order. The first
  argument of \<open>split_ws\<close> is the token read so far.
\<close>

fun split_ws :: "pystr \<Rightarrow> pystr \<Rightarrow> pystr list" where
  "split_ws w [] = (if w = [] then [] else [w])"
| "split_ws w (c # cs) =
     (if is_space c then (if w = [] then split_ws [] cs else w # split_ws [] cs)
      else split_ws (w @ [c]) cs)"

definition py_split :: "pystr \<Rightarrow> pystr list" where
  "py_split s = split_ws [] s"

text \<open>
  \<^verbatim>\<open>s.capitalize()\<close>: the first character in title case, all others in lower case.
  On a string of ASCII characters this maps a first letter a to z to A to Z and every
  later letter A to Z to a to z, and changes nothing else. On a string with a character
  outside ASCII the result is given by the case mappings of the Unicode character
  database, which may change the length of the string and depend on the neighbours of a
  character; that table is not part of the program, and the result on such strings is
  the parameter \<open>ucd\<close> of the model. Every property below holds for every \<open>ucd\<close>.
\<close>

definition ascii_upper :: "nat \<Rightarrow> nat" where
  "ascii_upper c = (if 97 \<le> c \<and> c \<le> 122 then c - 32 else c)"

definition ascii_lower :: "nat \<Rightarrow> nat" where
  "ascii_lower c = (if 65 \<le> c \<and> c \<le> 90 then c + 32 else c)"

fun ascii_capitalize :: "pystr \<Rightarrow> pystr" where
  "ascii_capitalize [] = []"
| "ascii_capitalize (c # cs) = ascii_upper c # map ascii_lower cs"

definition py_capitalize :: "(pystr \<Rightarrow> pystr) \<Rightarrow> pystr \<Rightarrow> pystr" where
  "py_capitalize ucd s = (if list_all (\<lambda>c. c < 128) s then ascii_capitalize s else ucd s)"

subsection \<open>Python values and exceptions\<close>

datatype pyval =
    PNone
  | PStr pystr
  | PInt int
  | PList "pyval list"
  | PDict "(string \<times> pyval) list"

text \<open>A dictionary whose keys are string literals of the source.\<close>

type_synonym pydict = "(string \<times> pyval) list"

text \<open>\<^verbatim>\<open>d.get(k)\<close>: the value stored under a key, or nothing.\<close>

definition dict_get :: "pydict \<Rightarrow> string \<Rightarrow> pyval option" where
  "dict_get d k = map_of d k"

text \<open>Truth value of an object, as \<^verbatim>\<open>if x:\<close> tests it.\<close>

fun py_truthy :: "pyval \<Rightarrow> bool" where
  "py_truthy PNone = False"
| "py_truthy (PStr s) = (s \<noteq> [])"
| "py_truthy (PInt i) = (i \<noteq> 0)"
| "py_truthy (PList xs) = (xs \<noteq> [])"
| "py_truthy (PDict kvs) = (kvs \<noteq> [])"

datatype error =
    InvalidId
  | HTTPException nat string
  | IndexError
  | KeyError
  | ValidationError

text \<open>\<^verbatim>\<open>xs[0]\<close> raises \<^verbatim>\<open>IndexError\<close> on an empty list.\<close>

definition index0 :: "'a list \<Rightarrow> error + 'a" where
  "index0 xs = (case xs of [] \<Rightarrow> Inl IndexError | x # _ \<Rightarrow> Inr x)"

subsection \<open>The reply generator\<close>

text \<open>The local variables of \<^verbatim>\<open>_generate_assistant_reply\<close>, branch by branch.\<close>

definition resume_reply :: "(pystr \<Rightarrow> pystr) \<Rightarrow> pystr \<Rightarrow> pydict" where
  "resume_reply ucd prompt =
     [(''text'', PStr (lit (''I'' @ [CHR 0x27] @ ''ve drafted a professional summary and key bullet points based on your input. You can ask me to refine tone, quantify impact, or tailor to specific roles.''))),
      (''preview'', PDict
         [(''type'', PStr (lit ''resume'')),
          (''summary'', PStr (py_capitalize ucd (py_strip prompt) @ lit '' professional with a track record of delivering measurable outcomes.'')),
          (''sections'', PList
             [PDict [(''title'', PStr (lit ''Highlights'')),
                     (''items'', PList
                        [PStr (lit ''Led initiatives related to '' @ take 60 prompt @ lit ''...''),
                         PStr (lit ''Improved efficiency by 20% through process optimization''),
                         PStr (lit ''Collaborated across teams to deliver on-time projects'')])]])])]"

definition topics :: "pystr \<Rightarrow> pystr list" where
  "topics prompt = take 3 (filter (\<lambda>w. length w > 3) (py_split prompt))"

definition questions :: "pystr \<Rightarrow> pystr list" where
  "questions prompt =
     (let ts = topics prompt in
      [lit ''Tell me about a time you worked with '' @ (if ts \<noteq> [] then ts ! 0 else lit ''a cross-functional team'') @ lit ''.'',
       lit ''How would you approach '' @ (if length ts > 1 then ts ! 1 else lit ''prioritizing conflicting deadlines'') @ lit ''?'',
       lit ''Describe a challenging '' @ (if length ts > 2 then ts ! 2 else lit ''project'') @ lit '' and your impact.''])"

definition interview_reply :: "pystr \<Rightarrow> pydict" where
  "interview_reply prompt =
     [(''text'', PStr (lit ''Here are tailored practice questions and guidance. Ask me to generate follow-ups or score your answers.'')),
      (''preview'', PDict
         [(''type'', PStr (lit ''interview'')),
          (''questions'', PList (map PStr (questions prompt))),
          (''tips'', PList
             [PStr (lit ''Use STAR format (Situation, Task, Action, Result)''),
              PStr (lit ''Quantify impact and highlight collaboration''),
              PStr (lit ''Tie answers back to role requirements'')])])]"

definition keyword :: "pystr \<Rightarrow> error + pystr" where
  "keyword prompt = (if py_strip prompt \<noteq> [] then index0 (py_split prompt) else Inr (lit ''Role''))"

definition jobs :: "(pystr \<Rightarrow> pystr) \<Rightarrow> pystr \<Rightarrow> pyval list" where
  "jobs ucd kw =
     [PDict [(''title'', PStr (py_capitalize ucd kw @ lit '' Specialist'')), (''company'', PStr (lit ''Acme Corp'')),
             (''location'', PStr (lit ''Remote'')), (''match'', PInt 92)],
      PDict [(''title'', PStr (lit ''Senior '' @ py_capitalize ucd kw)), (''company'', PStr (lit ''Nimbus'')),
             (''location'', PStr (lit ''NYC, NY'')), (''match'', PInt 88)],
      PDict [(''title'', PStr (py_capitalize ucd kw @ lit '' Analyst'')), (''company'', PStr (lit ''Orbit Labs'')),
             (''location'', PStr (lit ''Austin, TX'')), (''match'', PInt 83)]]"

definition jobs_reply :: "(pystr \<Rightarrow> pystr) \<Rightarrow> pystr \<Rightarrow> pydict" where
  "jobs_reply ucd kw =
     [(''text'', PStr (lit ''I found a few matching roles. Ask me to tailor your resume or draft outreach messages.'')),
      (''preview'', PDict [(''type'', PStr (lit ''jobs'')), (''results'', PList (jobs ucd kw))])]"

definition generate_assistant_reply :: "(pystr \<Rightarrow> pystr) \<Rightarrow> pystr \<Rightarrow> pystr \<Rightarrow> error + pydict" where
  "generate_assistant_reply ucd mode prompt =
     (if mode = lit ''resume'' then Inr (resume_reply ucd prompt)
      else if mode = lit ''interview'' then Inr (interview_reply prompt)
      else (case keyword prompt of
              Inl e \<Rightarrow> Inl e
            | Inr kw \<Rightarrow> Inr (jobs_reply ucd kw)))"

subsection \<open>Identifiers of the document store\<close>

text \<open>
  The store names every document by an \<^verbatim>\<open>ObjectId\<close>: twelve bytes, written as
  24 hexadecimal digits. The model keeps an identifier as the lower-case digit string
  of its bytes, which is also what \<^verbatim>\<open>str\<close> returns for it. The constructor
  \<^verbatim>\<open>ObjectId(s)\<close> of the driver raises \<^verbatim>\<open>InvalidId\<close> unless \<open>s\<close> has exactly 24
  characters and \<^verbatim>\<open>bytes.fromhex(s)\<close> accepts it. \<^verbatim>\<open>bytes.fromhex\<close> reads pairs of
  hexadecimal digits in either case and skips ASCII whitespace before a pair and at the
  end, so a string of 24 characters with blanks yields an identifier of fewer than
  twelve bytes, which equals no identifier the store has handed out; what the driver
  does beyond comparing identifiers when it is asked to look such a value up is not
  part of the model. The source falls
  back to \<^verbatim>\<open>ObjectId = str\<close> only when the driver cannot be imported; both are
  callable, so the test \<^verbatim>\<open>hasattr(ObjectId, "__call__")\<close> in \<^verbatim>\<open>chat\<close> always takes
  its first branch.
\<close>

definition is_hex :: "nat \<Rightarrow> bool" where
  "is_hex c = ((48 \<le> c \<and> c \<le> 57) \<or> (97 \<le> c \<and> c \<le> 102) \<or> (65 \<le> c \<and> c \<le> 70))"

definition is_bytes_space :: "nat \<Rightarrow> bool" where
  "is_bytes_space c = (c = 32 \<or> (9 \<le> c \<and> c \<le> 13))"

fun fromhex :: "pystr \<Rightarrow> pystr option" where
  "fromhex [] = Some []"
| "fromhex [c] = (if is_bytes_space c then Some [] else None)"
| "fromhex (c # d # cs) =
     (if is_bytes_space c then fromhex (d # cs)
      else if is_hex c \<and> is_hex d
           then map_option (\<lambda>r. ascii_lower c # ascii_lower d # r) (fromhex cs)
           else None)"

definition ObjectId :: "pystr \<Rightarrow> error + pystr" where
  "ObjectId s =
     (if length s = 24
      then (case fromhex s of None \<Rightarrow> Inl InvalidId | Some b \<Rightarrow> Inr b)
      else Inl InvalidId)"

text \<open>\<^verbatim>\<open>_coerce_oid\<close>: \<^verbatim>\<open>str(value)\<close>, which does not raise on an identifier.\<close>

definition coerce_oid :: "pystr \<Rightarrow> pystr" where
  "coerce_oid v = v"

text \<open>
  Modelled from the spec: the identifiers the store generates, which the specification
  leaves opaque. The \<open>n\<close>-th identifier handed out is \<open>n\<close> written in 24 lower-case
  hexadecimal digits, so the first \<open>16 ^ 24\<close> identifiers are pairwise different and
  each of them is accepted by \<^verbatim>\<open>ObjectId\<close>.
\<close>

definition hex_char :: "nat \<Rightarrow> nat" where
  "hex_char d = (if d < 10 then 48 + d else 87 + d)"

fun hex_digits :: "nat \<Rightarrow> nat \<Rightarrow> pystr" where
  "hex_digits 0 n = []"
| "hex_digits (Suc k) n = hex_digits k (n div 16) @ [hex_char (n mod 16)]"

definition new_object_id :: "nat \<Rightarrow> pystr" where
  "new_object_id n = hex_digits 24 n"

subsection \<open>Schema classes and stored documents\<close>

text \<open>
  The classes \<^verbatim>\<open>Session\<close>, \<^verbatim>\<open>Message\<close> and \<^verbatim>\<open>Preview\<close> of
  \<^verbatim>\<open>schemas.py\<close> are not among the sources. Their fields are those of the data model
  in the specification. A stored document carries in addition the identifier given by
  the store and the two timestamps.
\<close>

text \<open>
  Modelled from the spec: the class \<^verbatim>\<open>Session\<close> of \<^verbatim>\<open>schemas.py\<close>, with the fields
  that \<^verbatim>\<open>create_session\<close> sets.
\<close>

record SessionSchema =
  ss_user_id :: "pystr option"
  ss_mode :: pystr
  ss_title :: "pystr option"
  ss_status :: pystr

text \<open>
  Modelled from the spec: the class \<^verbatim>\<open>Message\<close> of \<^verbatim>\<open>schemas.py\<close>; the field
  \<^verbatim>\<open>meta\<close> is optional.
\<close>

record MessageSchema =
  ms_session_id :: pystr
  ms_role :: pystr
  ms_content :: pystr
  ms_meta :: "(string \<times> pystr) list option"

text \<open>
  Modelled from the spec: a document of the collection \<^verbatim>\<open>session\<close>. Its mode is
  optional because \<^verbatim>\<open>chat\<close> reads it with a default.
\<close>

record session_doc =
  s_id :: pystr
  s_user_id :: "pystr option"
  s_mode :: "pystr option"
  s_title :: "pystr option"
  s_status :: pystr
  s_created_at :: nat
  s_updated_at :: nat

text \<open>Modelled from the spec: a document of the collection \<^verbatim>\<open>message\<close>.\<close>

record message_doc =
  m_id :: pystr
  m_session_id :: pystr
  m_role :: pystr
  m_content :: pystr
  m_meta :: "(string \<times> pystr) list option"
  m_created_at :: nat
  m_updated_at :: nat

text \<open>
  Modelled from the spec: a document of the collection \<^verbatim>\<open>preview\<close>, that is, the
  fields of the class \<^verbatim>\<open>Preview\<close> of \<^verbatim>\<open>schemas.py\<close> with the identifier and the
  timestamps that \<^verbatim>\<open>chat\<close> sets.
\<close>

record preview_doc =
  p_id :: pystr
  p_session_id :: pystr
  p_mode :: pystr
  p_content :: pyval
  p_created_at :: nat
  p_updated_at :: nat

subsection \<open>The document store\<close>

text \<open>
  The three collections in insertion order and the number of identifiers handed out so
  far. The store is taken to be connected and its writes to succeed: the failures
  \<^verbatim>\<open>StoreUnavailable\<close> and \<^verbatim>\<open>WriteError\<close> of the adapter depend on the
  environment, not on the arguments, and are left out.

  The time is an input of the handlers: a handler takes the function \<open>now\<close>, whose value
  at \<open>k\<close> is what the \<open>k\<close>-th reading of the clock during the call returns. Nothing is
  assumed of these values; two readings may be equal.
\<close>

record store =
  session_coll :: "session_doc list"
  message_coll :: "message_doc list"
  preview_coll :: "preview_doc list"
  next_oid :: nat

definition empty_store :: store where
  "empty_store = \<lparr>session_coll = [], message_coll = [], preview_coll = [], next_oid = 0\<rparr>"

text \<open>
  Modelled from the spec: \<^verbatim>\<open>create_document\<close> of \<^verbatim>\<open>database.py\<close>, which is not
  among the sources, at the collection \<^verbatim>\<open>session\<close>. It stamps the record with the
  current time \<open>t\<close>, inserts it at the end of the collection and returns the identifier
  the store gave it, as a string.
\<close>

definition create_document_session :: "nat \<Rightarrow> store \<Rightarrow> SessionSchema \<Rightarrow> store \<times> pystr" where
  "create_document_session t db r =
     (let i = new_object_id (next_oid db) in
      (db\<lparr>session_coll := session_coll db @
             [\<lparr>s_id = i, s_user_id = ss_user_id r, s_mode = Some (ss_mode r), s_title = ss_title r,
               s_status = ss_status r, s_created_at = t, s_updated_at = t\<rparr>],
           next_oid := Suc (next_oid db)\<rparr>, i))"

text \<open>
  Modelled from the spec: \<^verbatim>\<open>create_document\<close> of \<^verbatim>\<open>database.py\<close> at the
  collection \<^verbatim>\<open>message\<close>, in the same way.
\<close>

definition create_document_message :: "nat \<Rightarrow> store \<Rightarrow> MessageSchema \<Rightarrow> store \<times> pystr" where
  "create_document_message t db r =
     (let i = new_object_id (next_oid db) in
      (db\<lparr>message_coll := message_coll db @
             [\<lparr>m_id = i, m_session_id = ms_session_id r, m_role = ms_role r, m_content = ms_content r,
               m_meta = ms_meta r, m_created_at = t, m_updated_at = t\<rparr>],
           next_oid := Suc (next_oid db)\<rparr>, i))"

text \<open>
  Modelled from the spec: \<^verbatim>\<open>get_documents\<close> of \<^verbatim>\<open>database.py\<close>, at the collection
  \<^verbatim>\<open>message\<close> with the filter \<^verbatim>\<open>{"session_id": session_id}\<close>: all matching records
  in the order of the store, none when nothing matches.
\<close>

definition get_documents_message :: "store \<Rightarrow> pystr \<Rightarrow> message_doc list" where
  "get_documents_message db session_id = filter (\<lambda>d. m_session_id d = session_id) (message_coll db)"

text \<open>The driver calls that \<^verbatim>\<open>main.py\<close> makes on the collections directly.\<close>

definition find_one_session :: "store \<Rightarrow> pystr \<Rightarrow> session_doc option" where
  "find_one_session db oid = find (\<lambda>s. s_id s = oid) (session_coll db)"

text \<open>
  \<^verbatim>\<open>PreviewSchema(...).model_dump()\<close>, stamped with two readings \<open>t1\<close> and \<open>t2\<close> of
  the clock, then \<^verbatim>\<open>db["preview"].insert_one\<close>.
\<close>

definition insert_one_preview :: "nat \<Rightarrow> nat \<Rightarrow> store \<Rightarrow> pystr \<Rightarrow> pystr \<Rightarrow> pyval \<Rightarrow> store" where
  "insert_one_preview t1 t2 db session_id mode content =
     db\<lparr>preview_coll := preview_coll db @
          [\<lparr>p_id = new_object_id (next_oid db), p_session_id = session_id, p_mode = mode,
            p_content = content, p_created_at = t1, p_updated_at = t2\<rparr>],
        next_oid := Suc (next_oid db)\<rparr>"



subsection \<open>Requests, responses and handlers\<close>

text \<open>
  The request models. The field \<^verbatim>\<open>mode\<close> of a session request has the type
  \<^verbatim>\<open>Literal["resume", "interview", "jobs"]\<close>; the framework rejects every other value
  before the handler runs.
\<close>

datatype mode_literal = Resume | Interview | Jobs

fun mode_str :: "mode_literal \<Rightarrow> pystr" where
  "mode_str Resume = lit ''resume''"
| "mode_str Interview = lit ''interview''"
| "mode_str Jobs = lit ''jobs''"

record CreateSessionRequest =
  csr_user_id :: "pystr option"
  csr_mode :: mode_literal
  csr_title :: "pystr option"

record ChatResponse =
  cr_session_id :: pystr
  cr_messages :: "message_doc list"
  cr_preview :: "pyval option"


text \<open>
  \<^verbatim>\<open>create_session\<close>: the session record, then the seed message; the clock is read
  once for each.
\<close>

definition create_session :: "(nat \<Rightarrow> nat) \<Rightarrow> store \<Rightarrow> CreateSessionRequest \<Rightarrow> store \<times> pystr" where
  "create_session now db payload =
     (let session = \<lparr>ss_user_id = csr_user_id payload, ss_mode = mode_str (csr_mode payload),
                      ss_title = csr_title payload, ss_status = lit ''active''\<rparr>;
          (db1, session_id) = create_document_session (now 0) db session;
          (db2, _) = create_document_message (now 1) db1
             \<lparr>ms_session_id = session_id, ms_role = lit ''system'',
              ms_content = lit ''CoPilot session created for '' @ mode_str (csr_mode payload) @ lit '' mode.'',
              ms_meta = None\<rparr>
      in (db2, session_id))"

text \<open>\<^verbatim>\<open>list_messages\<close>: the stored messages of the id, with their identifiers as strings.\<close>

definition list_messages :: "store \<Rightarrow> pystr \<Rightarrow> message_doc list" where
  "list_messages db session_id =
     map (\<lambda>d. d\<lparr>m_id := coerce_oid (m_id d)\<rparr>) (get_documents_message db session_id)"

text \<open>\<^verbatim>\<open>sess.get("mode", "resume")\<close>.\<close>

definition session_mode :: "session_doc \<Rightarrow> pystr" where
  "session_mode sess = (case s_mode sess of None \<Rightarrow> lit ''resume'' | Some m \<Rightarrow> m)"

text \<open>
  \<^verbatim>\<open>chat\<close>. The handler returns the store together with its outcome, so that what a
  failing call has written before it raised stays visible. The clock is read for the
  user message, for the assistant message, and twice for the preview.
\<close>

definition chat ::
  "(pystr \<Rightarrow> pystr) \<Rightarrow> (nat \<Rightarrow> nat) \<Rightarrow> store \<Rightarrow> pystr \<Rightarrow> pystr \<Rightarrow> store \<times> (error + ChatResponse)" where
  "chat ucd now db session_id content =
     (case ObjectId session_id of
        Inl e \<Rightarrow> (db, Inl e)
      | Inr oid \<Rightarrow>
          (case find_one_session db oid of
             None \<Rightarrow> (db, Inl (HTTPException 404 ''Session not found''))
           | Some sess \<Rightarrow>
               (let mode = session_mode sess;
                    db1 = fst (create_document_message (now 0) db
                            \<lparr>ms_session_id = session_id, ms_role = lit ''user'',
                             ms_content = content, ms_meta = None\<rparr>)
                in case generate_assistant_reply ucd mode content of
                     Inl e \<Rightarrow> (db1, Inl e)
                   | Inr result \<Rightarrow>
                       (case dict_get result ''text'' of
                          None \<Rightarrow> (db1, Inl KeyError)
                        | Some (PStr text) \<Rightarrow>
                            (let db2 = fst (create_document_message (now 1) db1
                                         \<lparr>ms_session_id = session_id, ms_role = lit ''assistant'',
                                          ms_content = text, ms_meta = Some [(''mode'', mode)]\<rparr>);
                                 db3 = (case dict_get result ''preview'' of
                                          None \<Rightarrow> db2
                                        | Some pv \<Rightarrow>
                                            if py_truthy pv
                                            then insert_one_preview (now 2) (now 3) db2 session_id mode pv
                                            else db2);
                                 msgs = map (\<lambda>m. m\<lparr>m_id := coerce_oid (m_id m)\<rparr>)
                                          (get_documents_message db3 session_id)
                             in (db3, Inr \<lparr>cr_session_id = session_id, cr_messages = msgs,
                                           cr_preview = dict_get result ''preview''\<rparr>))
                        | Some _ \<Rightarrow> (db1, Inl ValidationError)))))"


subsection \<open>Referential integrity of the store\<close>

text \<open>
  Every stored session carries an identifier the store has handed out, and the
  \<^verbatim>\<open>session_id\<close> of every stored message denotes such an identifier. The handlers
  keep this, starting from the empty store.
\<close>

definition store_inv :: "store \<Rightarrow> bool" where
  "store_inv db =
     ((\<forall>s\<in>set (session_coll db). \<exists>k<next_oid db. s_id s = new_object_id k) \<and>
      (\<forall>m\<in>set (message_coll db). \<exists>k<next_oid db. ObjectId (m_session_id m) = Inr (new_object_id k)))"

subsection \<open>Example stores\<close>

text \<open>
  The empty store after one jobs session has been created, with the clock reading
  \<open>k\<close> at the \<open>k\<close>-th reading, and that session's identifier.
\<close>

definition demo_now :: "nat \<Rightarrow> nat" where
  "demo_now k = k"

definition demo_request :: CreateSessionRequest where
  "demo_request = \<lparr>csr_user_id = None, csr_mode = Jobs, csr_title = None\<rparr>"

definition demo_store :: store where
  "demo_store = fst (create_session demo_now empty_store demo_request)"

definition demo_session_id :: pystr where
  "demo_session_id = snd (create_session demo_now empty_store demo_request)"

text \<open>
  A store in which the 172nd identifier handed out, whose digits end in "ab", names a
  jobs session with its seed message.
\<close>

definition ab_session_id :: pystr where
  "ab_session_id = lit ''0000000000000000000000ab''"

definition ab_store :: store where
  "ab_store =
     \<lparr>session_coll =
        [\<lparr>s_id = ab_session_id, s_user_id = None, s_mode = Some (lit ''jobs''), s_title = None,
          s_status = lit ''active'', s_created_at = 0, s_updated_at = 0\<rparr>],
      message_coll =
        [\<lparr>m_id = lit ''0000000000000000000000ac'', m_session_id = ab_session_id,
          m_role = lit ''system'', m_content = lit ''CoPilot session created for jobs mode.'',
          m_meta = None, m_created_at = 1, m_updated_at = 1\<rparr>],
      preview_coll = [],
      next_oid = 173\<rparr>"

section \<open>Properties\<close>

subsection \<open>String literals\<close>

lemma lit_eq_iff: "lit a = lit b \<longleftrightarrow> a = b"
  unfolding lit_def by (rule inj_map_eq_map) (simp add: inj_on_def)

lemma lit_append: "lit (a @ b) = lit a @ lit b"
  by (simp add: lit_def)

subsection \<open>Splitting and trimming\<close>

lemma split_ws_nonempty_iff:
  "split_ws w cs \<noteq> [] \<longleftrightarrow> w \<noteq> [] \<or> (\<exists>c\<in>set cs. \<not> is_space c)"
  by (induction cs arbitrary: w) auto

lemma py_split_nonempty_iff: "py_split s \<noteq> [] \<longleftrightarrow> (\<exists>c\<in>set s. \<not> is_space c)"
  by (simp add: py_split_def split_ws_nonempty_iff)

lemma py_strip_nonempty_iff: "py_strip s \<noteq> [] \<longleftrightarrow> (\<exists>c\<in>set s. \<not> is_space c)"
proof
  assume "py_strip s \<noteq> []"
  then have "\<exists>c\<in>set (dropWhile is_space s). \<not> is_space c"
    by (simp add: py_strip_def dropWhile_eq_Nil_conv)
  then show "\<exists>c\<in>set s. \<not> is_space c"
    by (meson set_dropWhileD)
next
  assume "\<exists>c\<in>set s. \<not> is_space c"
  then have ne: "dropWhile is_space s \<noteq> []"
    by (simp add: dropWhile_eq_Nil_conv)
  then have "\<not> is_space (hd (dropWhile is_space s))"
    by (rule hd_dropWhile)
  moreover have "hd (dropWhile is_space s) \<in> set (dropWhile is_space s)"
    using ne by simp
  ultimately show "py_strip s \<noteq> []"
    by (auto simp: py_strip_def dropWhile_eq_Nil_conv)
qed

lemma split_ws_tokens:
  "\<forall>c\<in>set w. \<not> is_space c \<Longrightarrow> u \<in> set (split_ws w cs) \<Longrightarrow> u \<noteq> [] \<and> (\<forall>c\<in>set u. \<not> is_space c)"
proof (induction cs arbitrary: w)
  case Nil
  then show ?case by (simp split: if_splits)
next
  case (Cons a cs)
  show ?case
  proof (cases "is_space a")
    case True
    have e: "\<forall>c\<in>set ([]::pystr). \<not> is_space c" by simp
    from Cons.prems(2) True have "u = w \<and> w \<noteq> [] \<or> u \<in> set (split_ws [] cs)"
      by (simp split: if_splits)
    then show ?thesis
    proof
      assume "u = w \<and> w \<noteq> []"
      then show ?thesis using Cons.prems(1) by simp
    next
      assume "u \<in> set (split_ws [] cs)"
      then show ?thesis using Cons.IH [OF e] by simp
    qed
  next
    case False
    then have w': "\<forall>c\<in>set (w @ [a]). \<not> is_space c" using Cons.prems(1) by simp
    from Cons.prems(2) False have "u \<in> set (split_ws (w @ [a]) cs)" by simp
    then show ?thesis using Cons.IH [OF w'] by simp
  qed
qed

lemma py_split_tokens: "u \<in> set (py_split s) \<Longrightarrow> u \<noteq> [] \<and> (\<forall>c\<in>set u. \<not> is_space c)"
  using split_ws_tokens [of "[]" u s] by (simp add: py_split_def)

lemma split_ws_concat: "concat (split_ws w cs) = w @ filter (\<lambda>c. \<not> is_space c) cs"
  by (induction cs arbitrary: w) auto

lemma py_split_concat: "concat (py_split s) = filter (\<lambda>c. \<not> is_space c) s"
  by (simp add: py_split_def split_ws_concat)

lemma split_ws_run:
  "\<forall>c\<in>set xs. \<not> is_space c \<Longrightarrow> split_ws w (xs @ rest) = split_ws (w @ xs) rest"
  by (induction xs arbitrary: w) auto

lemma split_ws_skip: "split_ws [] cs = split_ws [] (dropWhile is_space cs)"
  by (induction cs) auto

lemma split_ws_after_run:
  "w \<noteq> [] \<Longrightarrow> rest = [] \<or> is_space (hd rest) \<Longrightarrow> \<exists>ws. split_ws w rest = w # ws"
  by (cases rest) auto

lemma py_split_first:
  assumes "\<exists>c\<in>set s. \<not> is_space c"
  shows "\<exists>ws. py_split s = takeWhile (\<lambda>c. \<not> is_space c) (dropWhile is_space s) # ws"
proof -
  let ?t = "dropWhile is_space s"
  let ?w = "takeWhile (\<lambda>c. \<not> is_space c) ?t"
  let ?rest = "dropWhile (\<lambda>c. \<not> is_space c) ?t"
  have ne: "?t \<noteq> []" using assms by (simp add: dropWhile_eq_Nil_conv)
  then have "\<not> is_space (hd ?t)" by (rule hd_dropWhile)
  then have w: "?w \<noteq> []" using ne by (cases ?t) simp_all
  have rest: "?rest = [] \<or> is_space (hd ?rest)"
    using hd_dropWhile [of "\<lambda>c. \<not> is_space c" ?t] by blast
  have run: "\<forall>c\<in>set ?w. \<not> is_space c"
    using set_takeWhileD [of _ "\<lambda>c. \<not> is_space c" ?t] by blast
  have "py_split s = split_ws [] ?t"
    using split_ws_skip [of s] by (simp add: py_split_def)
  also have "\<dots> = split_ws [] (?w @ ?rest)" by simp
  also have "\<dots> = split_ws ?w ?rest"
    using split_ws_run [OF run, of "[]" ?rest] by simp
  finally show ?thesis
    using split_ws_after_run [OF w rest] by auto
qed

lemma keyword_total:
  "keyword prompt = Inr (if py_strip prompt = [] then lit ''Role'' else hd (py_split prompt))"
proof (cases "py_strip prompt = []")
  case True
  then show ?thesis by (simp add: keyword_def)
next
  case False
  then have "py_split prompt \<noteq> []"
    by (simp add: py_strip_nonempty_iff py_split_nonempty_iff)
  then show ?thesis using False
    by (cases "py_split prompt") (simp_all add: keyword_def index0_def)
qed



lemma py_split_Nil: "py_split [] = []"
  by (simp add: py_split_def)

lemma py_split_space: "is_space c \<Longrightarrow> py_split (c # s) = py_split s"
  by (simp add: py_split_def)

lemma py_split_token:
  assumes "w \<noteq> []" and "\<forall>x\<in>set w. \<not> is_space x"
  shows "py_split w = [w]"
    and "is_space c \<Longrightarrow> py_split (w @ c # rest) = w # py_split rest"
proof -
  show "py_split w = [w]"
    using split_ws_run [OF assms(2), of "[]" "[]"] assms(1) by (simp add: py_split_def)
  assume "is_space c"
  then show "py_split (w @ c # rest) = w # py_split rest"
    using split_ws_run [OF assms(2), of "[]" "c # rest"] assms(1) by (simp add: py_split_def)
qed

lemma is_space_iff:
  "is_space c \<longleftrightarrow>
     c \<in> {9, 10, 11, 12, 13, 28, 29, 30, 31, 32, 133, 160, 5760, 8232, 8233, 8239, 8287, 12288}
       \<union> {8192..8202}"
  unfolding is_space_def by auto

lemma py_capitalize_ascii:
  "list_all (\<lambda>c. c < 128) s \<Longrightarrow>
   py_capitalize ucd s =
     (case s of [] \<Rightarrow> []
      | c # cs \<Rightarrow> (if 97 \<le> c \<and> c \<le> 122 then c - 32 else c)
                  # map (\<lambda>d. if 65 \<le> d \<and> d \<le> 90 then d + 32 else d) cs)"
  by (cases s) (simp_all add: py_capitalize_def ascii_upper_def ascii_lower_def)

lemma py_capitalize_Role: "py_capitalize ucd (lit ''Role'') = lit ''Role''"
  by (simp add: py_capitalize_def lit_def ascii_upper_def ascii_lower_def)

subsection \<open>The reply generator\<close>

lemma mode_lits:
  "lit ''jobs'' \<noteq> lit ''resume''" "lit ''jobs'' \<noteq> lit ''interview''"
  "lit ''interview'' \<noteq> lit ''resume''"
  by (simp_all add: lit_eq_iff)

lemma generate_resume: "generate_assistant_reply ucd (lit ''resume'') prompt = Inr (resume_reply ucd prompt)"
  by (simp add: generate_assistant_reply_def)

lemma generate_interview:
  "generate_assistant_reply ucd (lit ''interview'') prompt = Inr (interview_reply prompt)"
  by (simp add: generate_assistant_reply_def mode_lits)

lemma generate_jobs:
  "mode \<noteq> lit ''resume'' \<Longrightarrow> mode \<noteq> lit ''interview'' \<Longrightarrow>
   generate_assistant_reply ucd mode prompt =
     Inr (jobs_reply ucd (if py_strip prompt = [] then lit ''Role'' else hd (py_split prompt)))"
  by (simp add: generate_assistant_reply_def keyword_total)

lemma generate_shape:
  "\<exists>r t kvs. generate_assistant_reply ucd mode prompt = Inr r \<and> dict_get r ''text'' = Some (PStr t)
     \<and> dict_get r ''preview'' = Some (PDict kvs) \<and> kvs \<noteq> []"
proof -
  consider "mode = lit ''resume''" | "mode = lit ''interview''"
    | "mode \<noteq> lit ''resume'' \<and> mode \<noteq> lit ''interview''"
    by blast
  then show ?thesis
  proof cases
    case 1
    then show ?thesis by (simp add: generate_resume dict_get_def resume_reply_def)
  next
    case 2
    then show ?thesis by (simp add: generate_interview dict_get_def interview_reply_def)
  next
    case 3
    then show ?thesis by (simp add: generate_jobs dict_get_def jobs_reply_def)
  qed
qed

lemma generate_shape_truthy:
  "\<exists>r txt kvs. generate_assistant_reply ucd mode prompt = Inr r \<and> dict_get r ''text'' = Some (PStr txt)
     \<and> dict_get r ''preview'' = Some (PDict kvs) \<and> kvs \<noteq> [] \<and> py_truthy (PDict kvs)"
  using generate_shape [of ucd mode prompt] by auto



lemma questions_a_be_it:
  "questions (lit ''a be it'') =
     [lit ''Tell me about a time you worked with a cross-functional team.'',
      lit ''How would you approach prioritizing conflicting deadlines?'',
      lit ''Describe a challenging project and your impact.'']"
  by (simp add: questions_def topics_def py_split_def is_space_def lit_def)

text \<open>
  C4, as stated, names the fallback phrase of the third question as "a project". For the
  prompt "a be it" no word is longer than three characters, and none of the three
  questions contains that phrase: the third one reads "Describe a challenging project and
  your impact."
\<close>

theorem interview_a_project_counterexample:
  "questions (lit ''a be it'') ! 2 = lit ''Describe a challenging project and your impact.''
   \<and> \<not> sublist (lit ''a project'') (questions (lit ''a be it'') ! 0)
   \<and> \<not> sublist (lit ''a project'') (questions (lit ''a be it'') ! 1)
   \<and> \<not> sublist (lit ''a project'') (questions (lit ''a be it'') ! 2)"
  unfolding questions_a_be_it by (simp add: lit_def sublist_code(3))

lemma topics_empty: "\<forall>w\<in>set (py_split prompt). length w \<le> 3 \<Longrightarrow> topics prompt = []"
proof -
  assume a: "\<forall>w\<in>set (py_split prompt). length w \<le> 3"
  have "filter (\<lambda>w. length w > 3) (py_split prompt) = []"
    unfolding filter_empty_conv using a by (simp add: not_less)
  then show ?thesis by (simp add: topics_def)
qed

text \<open>
  C4, amended: in interview mode the generator never fails. The prompt is split at
  whitespace, the topics are the first three tokens longer than three characters; the
  three questions use the first, second and third topic, and where a topic is missing
  the phrases "a cross-functional team", "prioritizing conflicting deadlines" and
  "project"; a prompt whose words all have at most three characters gives the three
  fallback questions. The last five conjuncts say what splitting at whitespace is.
\<close>

theorem interview_questions_from_topics:
  "\<exists>r. generate_assistant_reply ucd (lit ''interview'') prompt = Inr r
     \<and> dict_get r ''preview'' = Some (PDict
          [(''type'', PStr (lit ''interview'')),
           (''questions'', PList (map PStr (questions prompt))),
           (''tips'', PList [PStr (lit ''Use STAR format (Situation, Task, Action, Result)''),
                             PStr (lit ''Quantify impact and highlight collaboration''),
                             PStr (lit ''Tie answers back to role requirements'')])])
     \<and> topics prompt = take 3 (filter (\<lambda>w. 3 < length w) (py_split prompt))
     \<and> length (topics prompt) \<le> 3
     \<and> questions prompt =
          [lit ''Tell me about a time you worked with ''
             @ (if 0 < length (topics prompt) then topics prompt ! 0 else lit ''a cross-functional team'') @ lit ''.'',
           lit ''How would you approach ''
             @ (if 1 < length (topics prompt) then topics prompt ! 1 else lit ''prioritizing conflicting deadlines'') @ lit ''?'',
           lit ''Describe a challenging ''
             @ (if 2 < length (topics prompt) then topics prompt ! 2 else lit ''project'') @ lit '' and your impact.'']
     \<and> ((\<forall>w\<in>set (py_split prompt). length w \<le> 3) \<longrightarrow>
          questions prompt =
            [lit ''Tell me about a time you worked with a cross-functional team.'',
             lit ''How would you approach prioritizing conflicting deadlines?'',
             lit ''Describe a challenging project and your impact.''])
     \<and> py_split [] = []
     \<and> (\<forall>c s. is_space c \<longrightarrow> py_split (c # s) = py_split s)
     \<and> (\<forall>w. w \<noteq> [] \<and> (\<forall>x\<in>set w. \<not> is_space x) \<longrightarrow> py_split w = [w])
     \<and> (\<forall>w c s. w \<noteq> [] \<and> (\<forall>x\<in>set w. \<not> is_space x) \<and> is_space c \<longrightarrow>
            py_split (w @ c # s) = w # py_split s)
     \<and> (\<forall>c. is_space c \<longleftrightarrow>
          c \<in> {9, 10, 11, 12, 13, 28, 29, 30, 31, 32, 133, 160, 5760, 8232, 8233, 8239, 8287, 12288}
            \<union> {8192..8202})"
proof -
  have q: "(\<forall>w\<in>set (py_split prompt). length w \<le> 3) \<longrightarrow>
          questions prompt =
            [lit ''Tell me about a time you worked with a cross-functional team.'',
             lit ''How would you approach prioritizing conflicting deadlines?'',
             lit ''Describe a challenging project and your impact.'']"
    by (simp add: questions_def topics_empty lit_def)
  have g: "dict_get (interview_reply prompt) ''preview'' = Some (PDict
          [(''type'', PStr (lit ''interview'')),
           (''questions'', PList (map PStr (questions prompt))),
           (''tips'', PList [PStr (lit ''Use STAR format (Situation, Task, Action, Result)''),
                             PStr (lit ''Quantify impact and highlight collaboration''),
                             PStr (lit ''Tie answers back to role requirements'')])])"
    by (simp add: interview_reply_def dict_get_def)
  have t: "topics prompt = take 3 (filter (\<lambda>w. 3 < length w) (py_split prompt))"
    by (simp add: topics_def)
  have l: "length (topics prompt) \<le> 3"
    by (simp add: topics_def)
  have qs: "questions prompt =
          [lit ''Tell me about a time you worked with ''
             @ (if 0 < length (topics prompt) then topics prompt ! 0 else lit ''a cross-functional team'') @ lit ''.'',
           lit ''How would you approach ''
             @ (if 1 < length (topics prompt) then topics prompt ! 1 else lit ''prioritizing conflicting deadlines'') @ lit ''?'',
           lit ''Describe a challenging ''
             @ (if 2 < length (topics prompt) then topics prompt ! 2 else lit ''project'') @ lit '' and your impact.'']"
    by (simp add: questions_def Let_def)
  have s1: "\<forall>c s. is_space c \<longrightarrow> py_split (c # s) = py_split s"
    using py_split_space by blast
  have s2: "\<forall>w. w \<noteq> [] \<and> (\<forall>x\<in>set w. \<not> is_space x) \<longrightarrow> py_split w = [w]"
    using py_split_token(1) by blast
  have s3: "\<forall>w c s. w \<noteq> [] \<and> (\<forall>x\<in>set w. \<not> is_space x) \<and> is_space c \<longrightarrow>
            py_split (w @ c # s) = w # py_split s"
    using py_split_token(2) by blast
  have w: "\<forall>c. is_space c \<longleftrightarrow>
          c \<in> {9, 10, 11, 12, 13, 28, 29, 30, 31, 32, 133, 160, 5760, 8232, 8233, 8239, 8287, 12288}
            \<union> {8192..8202}"
    using is_space_iff by blast
  show ?thesis
    apply (rule exI [of _ "interview_reply prompt"])
    apply (intro conjI)
    apply (rule generate_interview)
    apply (rule g)
    apply (rule t)
    apply (rule l)
    apply (rule qs)
    apply (rule q)
    apply (rule py_split_Nil)
    apply (rule s1)
    apply (rule s2)
    apply (rule s3)
    apply (rule w)
    done
qed

text \<open>
  C4 at the prompt "a be it", and at three words of four letters separated by a
  next-line character and a no-break space, which gives three topics.
\<close>

theorem interview_questions_from_topics_witness:
  "py_split (lit ''a be it'') = [lit ''a'', lit ''be'', lit ''it'']
   \<and> questions (lit ''a be it'') =
       [lit ''Tell me about a time you worked with a cross-functional team.'',
        lit ''How would you approach prioritizing conflicting deadlines?'',
        lit ''Describe a challenging project and your impact.'']
   \<and> topics (lit ''abcd'' @ [133] @ lit ''efgh'' @ [160] @ lit ''ijkl'') =
       [lit ''abcd'', lit ''efgh'', lit ''ijkl'']
   \<and> questions (lit ''abcd'' @ [133] @ lit ''efgh'' @ [160] @ lit ''ijkl'') =
       [lit ''Tell me about a time you worked with abcd.'',
        lit ''How would you approach efgh?'',
        lit ''Describe a challenging ijkl and your impact.'']"
proof -
  let ?p = "lit ''abcd'' @ [133] @ lit ''efgh'' @ [160] @ lit ''ijkl''"
  have sp: "py_split (lit ''a be it'') = [lit ''a'', lit ''be'', lit ''it'']"
    by (simp add: py_split_def is_space_def lit_def)
  have h: "\<forall>w\<in>set (py_split (lit ''a be it'')). length w \<le> 3"
    unfolding sp by (simp add: lit_def)
  from interview_questions_from_topics [of "\<lambda>s. s" "lit ''a be it''"] h
  have q1: "questions (lit ''a be it'') =
       [lit ''Tell me about a time you worked with a cross-functional team.'',
        lit ''How would you approach prioritizing conflicting deadlines?'',
        lit ''Describe a challenging project and your impact.'']"
    by blast
  from interview_questions_from_topics [of "\<lambda>s. s" ?p]
  have t0: "topics ?p = take 3 (filter (\<lambda>w. 3 < length w) (py_split ?p))"
    and q0: "questions ?p =
          [lit ''Tell me about a time you worked with ''
             @ (if 0 < length (topics ?p) then topics ?p ! 0 else lit ''a cross-functional team'') @ lit ''.'',
           lit ''How would you approach ''
             @ (if 1 < length (topics ?p) then topics ?p ! 1 else lit ''prioritizing conflicting deadlines'') @ lit ''?'',
           lit ''Describe a challenging ''
             @ (if 2 < length (topics ?p) then topics ?p ! 2 else lit ''project'') @ lit '' and your impact.'']"
    by blast+
  have sp2: "py_split ?p = [lit ''abcd'', lit ''efgh'', lit ''ijkl'']"
    by (simp add: py_split_def is_space_def lit_def)
  have t: "topics ?p = [lit ''abcd'', lit ''efgh'', lit ''ijkl'']"
    unfolding t0 sp2 by (simp add: lit_def)
  have q2: "questions ?p =
       [lit ''Tell me about a time you worked with abcd.'',
        lit ''How would you approach efgh?'',
        lit ''Describe a challenging ijkl and your impact.'']"
    using q0 unfolding t by (simp add: lit_def)
  show ?thesis using sp q1 t q2 by blast
qed

lemma jobs_reply_preview:
  "dict_get (jobs_reply ucd kw) ''preview'' = Some (PDict
     [(''type'', PStr (lit ''jobs'')),
      (''results'', PList
         [PDict [(''title'', PStr (py_capitalize ucd kw @ lit '' Specialist'')), (''company'', PStr (lit ''Acme Corp'')),
                 (''location'', PStr (lit ''Remote'')), (''match'', PInt 92)],
          PDict [(''title'', PStr (lit ''Senior '' @ py_capitalize ucd kw)), (''company'', PStr (lit ''Nimbus'')),
                 (''location'', PStr (lit ''NYC, NY'')), (''match'', PInt 88)],
          PDict [(''title'', PStr (py_capitalize ucd kw @ lit '' Analyst'')), (''company'', PStr (lit ''Orbit Labs'')),
                 (''location'', PStr (lit ''Austin, TX'')), (''match'', PInt 83)]])])"
  by (simp add: jobs_reply_def jobs_def dict_get_def)

lemma role_titles:
  "lit ''Role'' @ lit '' Specialist'' = lit ''Role Specialist''"
  "lit ''Senior '' @ lit ''Role'' = lit ''Senior Role''"
  "lit ''Role'' @ lit '' Analyst'' = lit ''Role Analyst''"
  by (simp_all add: lit_def)

text \<open>
  C5: in jobs mode the generator never fails. The keyword is the first
  whitespace-delimited token of the prompt, or "Role" when the prompt is empty or all
  whitespace; it is capitalized (an ASCII keyword gets a first letter a to z in upper
  case and every later letter A to Z in lower case); the preview lists exactly three
  jobs whose titles are built from the capitalized keyword and whose match scores are
  92, 88 and 83 in this order; for an empty or all-whitespace prompt the titles are
  "Role Specialist", "Senior Role" and "Role Analyst".
\<close>

theorem jobs_keyword_and_entries:
  "\<exists>kw cap r. keyword prompt = Inr kw
     \<and> ((\<forall>c\<in>set prompt. is_space c) \<longrightarrow> kw = lit ''Role'')
     \<and> ((\<exists>c\<in>set prompt. \<not> is_space c) \<longrightarrow>
          (\<exists>ws. py_split prompt = kw # ws)
          \<and> kw = takeWhile (\<lambda>c. \<not> is_space c) (dropWhile is_space prompt))
     \<and> cap = py_capitalize ucd kw
     \<and> (list_all (\<lambda>c. c < 128) kw \<longrightarrow>
          cap = (case kw of [] \<Rightarrow> []
                 | c # cs \<Rightarrow> (if 97 \<le> c \<and> c \<le> 122 then c - 32 else c)
                             # map (\<lambda>d. if 65 \<le> d \<and> d \<le> 90 then d + 32 else d) cs))
     \<and> (\<not> list_all (\<lambda>c. c < 128) kw \<longrightarrow> cap = ucd kw)
     \<and> generate_assistant_reply ucd (lit ''jobs'') prompt = Inr r
     \<and> dict_get r ''preview'' = Some (PDict
          [(''type'', PStr (lit ''jobs'')),
           (''results'', PList
              [PDict [(''title'', PStr (cap @ lit '' Specialist'')), (''company'', PStr (lit ''Acme Corp'')),
                      (''location'', PStr (lit ''Remote'')), (''match'', PInt 92)],
               PDict [(''title'', PStr (lit ''Senior '' @ cap)), (''company'', PStr (lit ''Nimbus'')),
                      (''location'', PStr (lit ''NYC, NY'')), (''match'', PInt 88)],
               PDict [(''title'', PStr (cap @ lit '' Analyst'')), (''company'', PStr (lit ''Orbit Labs'')),
                      (''location'', PStr (lit ''Austin, TX'')), (''match'', PInt 83)]])])
     \<and> ((\<forall>c\<in>set prompt. is_space c) \<longrightarrow>
          dict_get r ''preview'' = Some (PDict
            [(''type'', PStr (lit ''jobs'')),
             (''results'', PList
                [PDict [(''title'', PStr (lit ''Role Specialist'')), (''company'', PStr (lit ''Acme Corp'')),
                        (''location'', PStr (lit ''Remote'')), (''match'', PInt 92)],
                 PDict [(''title'', PStr (lit ''Senior Role'')), (''company'', PStr (lit ''Nimbus'')),
                        (''location'', PStr (lit ''NYC, NY'')), (''match'', PInt 88)],
                 PDict [(''title'', PStr (lit ''Role Analyst'')), (''company'', PStr (lit ''Orbit Labs'')),
                        (''location'', PStr (lit ''Austin, TX'')), (''match'', PInt 83)]])]))
     \<and> (\<forall>c. is_space c \<longleftrightarrow>
          c \<in> {9, 10, 11, 12, 13, 28, 29, 30, 31, 32, 133, 160, 5760, 8232, 8233, 8239, 8287, 12288}
            \<union> {8192..8202})"
proof -
  let ?kw = "if py_strip prompt = [] then lit ''Role'' else hd (py_split prompt)"
  have k: "keyword prompt = Inr ?kw" by (rule keyword_total)
  have g: "generate_assistant_reply ucd (lit ''jobs'') prompt = Inr (jobs_reply ucd ?kw)"
    by (rule generate_jobs) (simp_all add: mode_lits)
  have b: "(\<forall>c\<in>set prompt. is_space c) \<longrightarrow> ?kw = lit ''Role''"
  proof
    assume "\<forall>c\<in>set prompt. is_space c"
    then have "py_strip prompt = []" using py_strip_nonempty_iff [of prompt] by blast
    then show "?kw = lit ''Role''" by simp
  qed
  have f: "(\<exists>c\<in>set prompt. \<not> is_space c) \<longrightarrow>
          (\<exists>ws. py_split prompt = ?kw # ws)
          \<and> ?kw = takeWhile (\<lambda>c. \<not> is_space c) (dropWhile is_space prompt)"
  proof
    assume ex: "\<exists>c\<in>set prompt. \<not> is_space c"
    from py_split_first [OF ex] obtain ws where
      ws: "py_split prompt = takeWhile (\<lambda>c. \<not> is_space c) (dropWhile is_space prompt) # ws"
      by blast
    have "py_strip prompt \<noteq> []" using ex py_strip_nonempty_iff [of prompt] by blast
    then have kw: "?kw = takeWhile (\<lambda>c. \<not> is_space c) (dropWhile is_space prompt)"
      using ws by simp
    have "py_split prompt = ?kw # ws" unfolding kw by (rule ws)
    then have "\<exists>ws. py_split prompt = ?kw # ws" by (rule exI)
    then show "(\<exists>ws. py_split prompt = ?kw # ws)
          \<and> ?kw = takeWhile (\<lambda>c. \<not> is_space c) (dropWhile is_space prompt)"
      using kw by (rule conjI)
  qed
  have a: "list_all (\<lambda>c. c < 128) ?kw \<longrightarrow>
          py_capitalize ucd ?kw = (case ?kw of [] \<Rightarrow> []
                 | c # cs \<Rightarrow> (if 97 \<le> c \<and> c \<le> 122 then c - 32 else c)
                             # map (\<lambda>d. if 65 \<le> d \<and> d \<le> 90 then d + 32 else d) cs)"
    using py_capitalize_ascii by blast
  have n: "\<not> list_all (\<lambda>c. c < 128) ?kw \<longrightarrow> py_capitalize ucd ?kw = ucd ?kw"
    by (simp add: py_capitalize_def)
  have r: "(\<forall>c\<in>set prompt. is_space c) \<longrightarrow>
          dict_get (jobs_reply ucd ?kw) ''preview'' = Some (PDict
            [(''type'', PStr (lit ''jobs'')),
             (''results'', PList
                [PDict [(''title'', PStr (lit ''Role Specialist'')), (''company'', PStr (lit ''Acme Corp'')),
                        (''location'', PStr (lit ''Remote'')), (''match'', PInt 92)],
                 PDict [(''title'', PStr (lit ''Senior Role'')), (''company'', PStr (lit ''Nimbus'')),
                        (''location'', PStr (lit ''NYC, NY'')), (''match'', PInt 88)],
                 PDict [(''title'', PStr (lit ''Role Analyst'')), (''company'', PStr (lit ''Orbit Labs'')),
                        (''location'', PStr (lit ''Austin, TX'')), (''match'', PInt 83)]])])"
  proof
    assume "\<forall>c\<in>set prompt. is_space c"
    then have e: "?kw = lit ''Role''" using b by blast
    show "dict_get (jobs_reply ucd ?kw) ''preview'' = Some (PDict
            [(''type'', PStr (lit ''jobs'')),
             (''results'', PList
                [PDict [(''title'', PStr (lit ''Role Specialist'')), (''company'', PStr (lit ''Acme Corp'')),
                        (''location'', PStr (lit ''Remote'')), (''match'', PInt 92)],
                 PDict [(''title'', PStr (lit ''Senior Role'')), (''company'', PStr (lit ''Nimbus'')),
                        (''location'', PStr (lit ''NYC, NY'')), (''match'', PInt 88)],
                 PDict [(''title'', PStr (lit ''Role Analyst'')), (''company'', PStr (lit ''Orbit Labs'')),
                        (''location'', PStr (lit ''Austin, TX'')), (''match'', PInt 83)]])])"
      unfolding e jobs_reply_preview py_capitalize_Role role_titles ..
  qed
  have w: "\<forall>c. is_space c \<longleftrightarrow>
          c \<in> {9, 10, 11, 12, 13, 28, 29, 30, 31, 32, 133, 160, 5760, 8232, 8233, 8239, 8287, 12288}
            \<union> {8192..8202}"
    using is_space_iff by blast
  show ?thesis
    apply (rule exI [of _ ?kw])
    apply (rule exI [of _ "py_capitalize ucd ?kw"])
    apply (rule exI [of _ "jobs_reply ucd ?kw"])
    apply (intro conjI)
    apply (rule k)
    apply (rule b)
    apply (rule f)
    apply (rule refl)
    apply (rule a)
    apply (rule n)
    apply (rule g)
    apply (rule jobs_reply_preview)
    apply (rule r)
    apply (rule w)
    done
qed

text \<open>
  C5 at the prompt of one no-break space, where the keyword is "Role", and at the prompt
  "  data analyst", where the titles are built from "Data".
\<close>

theorem jobs_keyword_and_entries_witness:
  "\<forall>ucd.
     list_all is_space [160]
     \<and> keyword [160] = Inr (lit ''Role'')
     \<and> (\<exists>r. generate_assistant_reply ucd (lit ''jobs'') [160] = Inr r
          \<and> dict_get r ''preview'' = Some (PDict
            [(''type'', PStr (lit ''jobs'')),
             (''results'', PList
                [PDict [(''title'', PStr (lit ''Role Specialist'')), (''company'', PStr (lit ''Acme Corp'')),
                        (''location'', PStr (lit ''Remote'')), (''match'', PInt 92)],
                 PDict [(''title'', PStr (lit ''Senior Role'')), (''company'', PStr (lit ''Nimbus'')),
                        (''location'', PStr (lit ''NYC, NY'')), (''match'', PInt 88)],
                 PDict [(''title'', PStr (lit ''Role Analyst'')), (''company'', PStr (lit ''Orbit Labs'')),
                        (''location'', PStr (lit ''Austin, TX'')), (''match'', PInt 83)]])]))
     \<and> keyword (lit ''  data analyst'') = Inr (lit ''data'')
     \<and> (\<exists>r. generate_assistant_reply ucd (lit ''jobs'') (lit ''  data analyst'') = Inr r
          \<and> dict_get r ''preview'' = Some (PDict
            [(''type'', PStr (lit ''jobs'')),
             (''results'', PList
                [PDict [(''title'', PStr (lit ''Data Specialist'')), (''company'', PStr (lit ''Acme Corp'')),
                        (''location'', PStr (lit ''Remote'')), (''match'', PInt 92)],
                 PDict [(''title'', PStr (lit ''Senior Data'')), (''company'', PStr (lit ''Nimbus'')),
                        (''location'', PStr (lit ''NYC, NY'')), (''match'', PInt 88)],
                 PDict [(''title'', PStr (lit ''Data Analyst'')), (''company'', PStr (lit ''Orbit Labs'')),
                        (''location'', PStr (lit ''Austin, TX'')), (''match'', PInt 83)]])]))"
proof
  fix ucd :: "pystr \<Rightarrow> pystr"
  let ?p = "lit ''  data analyst''"
  have l: "list_all is_space [160]" by (simp add: is_space_def)
  have h: "\<forall>c\<in>set [160]. is_space c" by (simp add: is_space_def)
  from jobs_keyword_and_entries [of "[160]" ucd] h
  have k1: "keyword [160] = Inr (lit ''Role'')"
    and r1: "\<exists>r. generate_assistant_reply ucd (lit ''jobs'') [160] = Inr r
          \<and> dict_get r ''preview'' = Some (PDict
            [(''type'', PStr (lit ''jobs'')),
             (''results'', PList
                [PDict [(''title'', PStr (lit ''Role Specialist'')), (''company'', PStr (lit ''Acme Corp'')),
                        (''location'', PStr (lit ''Remote'')), (''match'', PInt 92)],
                 PDict [(''title'', PStr (lit ''Senior Role'')), (''company'', PStr (lit ''Nimbus'')),
                        (''location'', PStr (lit ''NYC, NY'')), (''match'', PInt 88)],
                 PDict [(''title'', PStr (lit ''Role Analyst'')), (''company'', PStr (lit ''Orbit Labs'')),
                        (''location'', PStr (lit ''Austin, TX'')), (''match'', PInt 83)]])])"
    by blast+
  have ex: "\<exists>c\<in>set ?p. \<not> is_space c" by (simp add: lit_def is_space_def)
  have tk: "takeWhile (\<lambda>c. \<not> is_space c) (dropWhile is_space ?p) = lit ''data''"
    by (simp add: lit_def is_space_def)
  have a: "list_all (\<lambda>c. c < 128) (lit ''data'')" by (simp add: lit_def)
  have c: "(case lit ''data'' of [] \<Rightarrow> []
                 | c # cs \<Rightarrow> (if 97 \<le> c \<and> c \<le> 122 then c - 32 else c)
                             # map (\<lambda>d. if 65 \<le> d \<and> d \<le> 90 then d + 32 else d) cs) = lit ''Data''"
    by (simp add: lit_def)
  from jobs_keyword_and_entries [of ?p ucd] ex obtain kw cap r where
    k2: "keyword ?p = Inr kw"
    and kw: "kw = takeWhile (\<lambda>c. \<not> is_space c) (dropWhile is_space ?p)"
    and cp: "list_all (\<lambda>c. c < 128) kw \<longrightarrow>
          cap = (case kw of [] \<Rightarrow> []
                 | c # cs \<Rightarrow> (if 97 \<le> c \<and> c \<le> 122 then c - 32 else c)
                             # map (\<lambda>d. if 65 \<le> d \<and> d \<le> 90 then d + 32 else d) cs)"
    and g: "generate_assistant_reply ucd (lit ''jobs'') ?p = Inr r"
    and p: "dict_get r ''preview'' = Some (PDict
          [(''type'', PStr (lit ''jobs'')),
           (''results'', PList
              [PDict [(''title'', PStr (cap @ lit '' Specialist'')), (''company'', PStr (lit ''Acme Corp'')),
                      (''location'', PStr (lit ''Remote'')), (''match'', PInt 92)],
               PDict [(''title'', PStr (lit ''Senior '' @ cap)), (''company'', PStr (lit ''Nimbus'')),
                      (''location'', PStr (lit ''NYC, NY'')), (''match'', PInt 88)],
               PDict [(''title'', PStr (cap @ lit '' Analyst'')), (''company'', PStr (lit ''Orbit Labs'')),
                      (''location'', PStr (lit ''Austin, TX'')), (''match'', PInt 83)]])])"
    by blast
  have kw': "kw = lit ''data''" using kw tk by simp
  have cap: "cap = lit ''Data''" using cp a c unfolding kw' by simp
  have ts: "lit ''Data'' @ lit '' Specialist'' = lit ''Data Specialist''"
    "lit ''Senior '' @ lit ''Data'' = lit ''Senior Data''"
    "lit ''Data'' @ lit '' Analyst'' = lit ''Data Analyst''"
    by (simp_all add: lit_def)
  have r2: "\<exists>r. generate_assistant_reply ucd (lit ''jobs'') ?p = Inr r
          \<and> dict_get r ''preview'' = Some (PDict
            [(''type'', PStr (lit ''jobs'')),
             (''results'', PList
                [PDict [(''title'', PStr (lit ''Data Specialist'')), (''company'', PStr (lit ''Acme Corp'')),
                        (''location'', PStr (lit ''Remote'')), (''match'', PInt 92)],
                 PDict [(''title'', PStr (lit ''Senior Data'')), (''company'', PStr (lit ''Nimbus'')),
                        (''location'', PStr (lit ''NYC, NY'')), (''match'', PInt 88)],
                 PDict [(''title'', PStr (lit ''Data Analyst'')), (''company'', PStr (lit ''Orbit Labs'')),
                        (''location'', PStr (lit ''Austin, TX'')), (''match'', PInt 83)]])])"
    using g p unfolding cap ts by blast
  have k2': "keyword ?p = Inr (lit ''data'')" using k2 kw' by simp
  show "list_all is_space [160]
     \<and> keyword [160] = Inr (lit ''Role'')
     \<and> (\<exists>r. generate_assistant_reply ucd (lit ''jobs'') [160] = Inr r
          \<and> dict_get r ''preview'' = Some (PDict
            [(''type'', PStr (lit ''jobs'')),
             (''results'', PList
                [PDict [(''title'', PStr (lit ''Role Specialist'')), (''company'', PStr (lit ''Acme Corp'')),
                        (''location'', PStr (lit ''Remote'')), (''match'', PInt 92)],
                 PDict [(''title'', PStr (lit ''Senior Role'')), (''company'', PStr (lit ''Nimbus'')),
                        (''location'', PStr (lit ''NYC, NY'')), (''match'', PInt 88)],
                 PDict [(''title'', PStr (lit ''Role Analyst'')), (''company'', PStr (lit ''Orbit Labs'')),
                        (''location'', PStr (lit ''Austin, TX'')), (''match'', PInt 83)]])]))
     \<and> keyword ?p = Inr (lit ''data'')
     \<and> (\<exists>r. generate_assistant_reply ucd (lit ''jobs'') ?p = Inr r
          \<and> dict_get r ''preview'' = Some (PDict
            [(''type'', PStr (lit ''jobs'')),
             (''results'', PList
                [PDict [(''title'', PStr (lit ''Data Specialist'')), (''company'', PStr (lit ''Acme Corp'')),
                        (''location'', PStr (lit ''Remote'')), (''match'', PInt 92)],
                 PDict [(''title'', PStr (lit ''Senior Data'')), (''company'', PStr (lit ''Nimbus'')),
                        (''location'', PStr (lit ''NYC, NY'')), (''match'', PInt 88)],
                 PDict [(''title'', PStr (lit ''Data Analyst'')), (''company'', PStr (lit ''Orbit Labs'')),
                        (''location'', PStr (lit ''Austin, TX'')), (''match'', PInt 83)]])]))"
    using l k1 r1 k2' r2 by (intro conjI)
qed

subsection \<open>Identifiers\<close>

lemma length_hex_digits: "length (hex_digits k n) = k"
  by (induction k arbitrary: n) simp_all

lemma hex_char_props:
  "d < 16 \<Longrightarrow> is_hex (hex_char d) \<and> \<not> is_bytes_space (hex_char d) \<and> ascii_lower (hex_char d) = hex_char d"
  by (simp add: hex_char_def is_hex_def is_bytes_space_def ascii_lower_def)

lemma hex_char_inj: "a < 16 \<Longrightarrow> b < 16 \<Longrightarrow> hex_char a = hex_char b \<Longrightarrow> a = b"
  by (simp add: hex_char_def split: if_splits)

lemma fromhex_plain:
  "list_all (\<lambda>c. is_hex c \<and> \<not> is_bytes_space c \<and> ascii_lower c = c) s \<Longrightarrow> even (length s) \<Longrightarrow> fromhex s = Some s"
proof (induction s rule: fromhex.induct)
  case 1
  then show ?case by simp
next
  case (2 c)
  then show ?case by simp
next
  case (3 c d cs)
  then show ?case by simp
qed

lemma hex_digits_plain: "list_all (\<lambda>c. is_hex c \<and> \<not> is_bytes_space c \<and> ascii_lower c = c) (hex_digits k n)"
  by (induction k arbitrary: n) (simp_all add: hex_char_props)

lemma ObjectId_new_object_id: "ObjectId (new_object_id n) = Inr (new_object_id n)"
proof -
  have "fromhex (new_object_id n) = Some (new_object_id n)"
    unfolding new_object_id_def
    by (rule fromhex_plain) (simp_all add: hex_digits_plain length_hex_digits)
  then show ?thesis
    by (simp add: ObjectId_def) (simp add: new_object_id_def length_hex_digits)
qed

lemma hex_digits_inj: "hex_digits k n = hex_digits k m \<Longrightarrow> n mod 16 ^ k = m mod 16 ^ k"
proof (induction k arbitrary: n m)
  case 0
  then show ?case by simp
next
  case (Suc k)
  from Suc.prems have e1: "hex_digits k (n div 16) = hex_digits k (m div 16)"
    and e2: "hex_char (n mod 16) = hex_char (m mod 16)"
    by (simp_all add: length_hex_digits)
  have r: "n mod 16 = m mod 16"
    by (rule hex_char_inj [OF _ _ e2]) simp_all
  have q: "n div 16 mod 16 ^ k = m div 16 mod 16 ^ k"
    by (rule Suc.IH [OF e1])
  have n: "n mod (16 * 16 ^ k) = 16 * (n div 16 mod 16 ^ k) + n mod 16"
    by (rule mod_mult2_eq)
  have m: "m mod (16 * 16 ^ k) = 16 * (m div 16 mod 16 ^ k) + m mod 16"
    by (rule mod_mult2_eq)
  have "n mod (16 * 16 ^ k) = m mod (16 * 16 ^ k)"
    unfolding n m r q ..
  then show ?case by simp
qed

lemma new_object_id_inj:
  assumes "n < 16 ^ 24" and "m < 16 ^ 24" and "new_object_id n = new_object_id m"
  shows "n = m"
proof -
  have "n mod 16 ^ 24 = m mod 16 ^ 24"
    using assms(3) unfolding new_object_id_def by (rule hex_digits_inj)
  moreover have "n mod 16 ^ 24 = n" using assms(1) by (rule mod_less)
  moreover have "m mod 16 ^ 24 = m" using assms(2) by (rule mod_less)
  ultimately show ?thesis by metis
qed

subsection \<open>The chat handler, path by path\<close>

lemma chat_invalid_id: "ObjectId session_id = Inl e \<Longrightarrow> chat ucd now db session_id content = (db, Inl e)"
  by (simp add: chat_def)

lemma chat_not_found:
  "ObjectId session_id = Inr oid \<Longrightarrow> find_one_session db oid = None \<Longrightarrow>
   chat ucd now db session_id content = (db, Inl (HTTPException 404 ''Session not found''))"
  by (simp add: chat_def)

lemma chat_found:
  assumes "ObjectId session_id = Inr oid"
    and "find_one_session db oid = Some sess"
    and "generate_assistant_reply ucd (session_mode sess) content = Inr r"
    and "dict_get r ''text'' = Some (PStr txt)"
    and "dict_get r ''preview'' = Some (PDict kvs)"
    and "kvs \<noteq> []"
  shows "\<exists>db'. chat ucd now db session_id content =
           (db', Inr \<lparr>cr_session_id = session_id,
                      cr_messages = list_messages db' session_id,
                      cr_preview = Some (PDict kvs)\<rparr>)
         \<and> session_coll db' = session_coll db
         \<and> message_coll db' = message_coll db @
             [\<lparr>m_id = new_object_id (next_oid db), m_session_id = session_id, m_role = lit ''user'',
               m_content = content, m_meta = None,
               m_created_at = now 0, m_updated_at = now 0\<rparr>,
              \<lparr>m_id = new_object_id (Suc (next_oid db)), m_session_id = session_id,
               m_role = lit ''assistant'', m_content = txt,
               m_meta = Some [(''mode'', session_mode sess)],
               m_created_at = now 1, m_updated_at = now 1\<rparr>]
         \<and> preview_coll db' = preview_coll db @
             [\<lparr>p_id = new_object_id (Suc (Suc (next_oid db))), p_session_id = session_id,
               p_mode = session_mode sess, p_content = PDict kvs,
               p_created_at = now 2, p_updated_at = now 3\<rparr>]
         \<and> next_oid db' = Suc (Suc (Suc (next_oid db)))"
  using assms
  by (simp add: chat_def Let_def create_document_message_def insert_one_preview_def
      list_messages_def get_documents_message_def)


text \<open>
  C1 fails on the code at the session id "abc": it has three characters, so the
  constructor \<^verbatim>\<open>ObjectId\<close> raises \<^verbatim>\<open>InvalidId\<close> before the lookup, and the call does
  not reach the 404 response, in any store. Nothing is written on this path. For an
  identifier that \<^verbatim>\<open>ObjectId\<close> accepts and that matches no session the lemma
  \<open>chat_not_found\<close> gives the 404 and the unchanged store.
\<close>

theorem chat_malformed_session_id_is_not_404:
  "chat ucd now db (lit ''abc'') content = (db, Inl InvalidId)
   \<and> InvalidId \<noteq> HTTPException 404 ''Session not found''"
  by (simp add: chat_invalid_id ObjectId_def lit_def)

lemma chat_success_cases:
  assumes "chat ucd now db session_id content = (db', Inr resp)"
  shows "\<exists>oid sess. ObjectId session_id = Inr oid \<and> find_one_session db oid = Some sess"
proof (cases "ObjectId session_id")
  case (Inl e)
  then show ?thesis using assms by (simp add: chat_invalid_id)
next
  case (Inr oid)
  show ?thesis
  proof (cases "find_one_session db oid")
    case None
    then show ?thesis using assms Inr by (simp add: chat_not_found)
  next
    case (Some sess)
    then show ?thesis using Inr by blast
  qed
qed


subsection \<open>Sessions and the integrity of the store\<close>

lemma create_session_result:
  "\<exists>db'. create_session now db payload = (db', new_object_id (next_oid db))
     \<and> session_coll db' = session_coll db @
          [\<lparr>s_id = new_object_id (next_oid db), s_user_id = csr_user_id payload,
            s_mode = Some (mode_str (csr_mode payload)), s_title = csr_title payload,
            s_status = lit ''active'', s_created_at = now 0, s_updated_at = now 0\<rparr>]
     \<and> message_coll db' = message_coll db @
          [\<lparr>m_id = new_object_id (Suc (next_oid db)), m_session_id = new_object_id (next_oid db),
            m_role = lit ''system'',
            m_content = lit ''CoPilot session created for '' @ mode_str (csr_mode payload) @ lit '' mode.'',
            m_meta = None, m_created_at = now 1, m_updated_at = now 1\<rparr>]
     \<and> preview_coll db' = preview_coll db
     \<and> next_oid db' = Suc (Suc (next_oid db))"
  by (simp add: create_session_def create_document_session_def create_document_message_def Let_def)

lemma store_inv_empty: "store_inv empty_store"
  by (simp add: store_inv_def empty_store_def)

lemma store_inv_create_session:
  assumes "store_inv db" and "create_session now db payload = (db', sid)"
  shows "store_inv db'"
proof -
  from create_session_result [of now db payload] assms(2) obtain s m where
    sc: "session_coll db' = session_coll db @ [s]" and sid: "s_id s = new_object_id (next_oid db)"
    and mc: "message_coll db' = message_coll db @ [m]"
    and msid: "m_session_id m = new_object_id (next_oid db)"
    and n: "next_oid db' = Suc (Suc (next_oid db))"
    by auto
  have a: "\<forall>x\<in>set (session_coll db'). \<exists>k<next_oid db'. s_id x = new_object_id k"
  proof
    fix x assume "x \<in> set (session_coll db')"
    then have "x \<in> set (session_coll db) \<or> x = s" using sc by auto
    then show "\<exists>k<next_oid db'. s_id x = new_object_id k"
    proof
      assume "x \<in> set (session_coll db)"
      then obtain k where "k < next_oid db" "s_id x = new_object_id k"
        using assms(1) unfolding store_inv_def by blast
      then show ?thesis using n by (intro exI [of _ k]) simp
    next
      assume "x = s"
      then show ?thesis using sid n by (intro exI [of _ "next_oid db"]) simp
    qed
  qed
  have b: "\<forall>x\<in>set (message_coll db'). \<exists>k<next_oid db'. ObjectId (m_session_id x) = Inr (new_object_id k)"
  proof
    fix x assume "x \<in> set (message_coll db')"
    then have "x \<in> set (message_coll db) \<or> x = m" using mc by auto
    then show "\<exists>k<next_oid db'. ObjectId (m_session_id x) = Inr (new_object_id k)"
    proof
      assume "x \<in> set (message_coll db)"
      then obtain k where "k < next_oid db" "ObjectId (m_session_id x) = Inr (new_object_id k)"
        using assms(1) unfolding store_inv_def by blast
      then show ?thesis using n by (intro exI [of _ k]) simp
    next
      assume "x = m"
      then show ?thesis using msid n
        by (intro exI [of _ "next_oid db"]) (simp add: ObjectId_new_object_id)
    qed
  qed
  show ?thesis unfolding store_inv_def using a b by blast
qed

lemma find_one_session_id: "find_one_session db oid = Some sess \<Longrightarrow> sess \<in> set (session_coll db) \<and> s_id sess = oid"
  unfolding find_one_session_def by (auto simp: find_Some_iff)

lemma store_inv_chat:
  assumes "store_inv db" and "chat ucd now db session_id content = (db', res)"
  shows "store_inv db'"
proof (cases "ObjectId session_id")
  case (Inl e)
  then show ?thesis using assms by (simp add: chat_invalid_id)
next
  case (Inr oid)
  show ?thesis
  proof (cases "find_one_session db oid")
    case None
    then show ?thesis using assms Inr by (simp add: chat_not_found)
  next
    case (Some sess)
    from generate_shape [of ucd "session_mode sess" "content"] obtain r t kvs where
      g: "generate_assistant_reply ucd (session_mode sess) content = Inr r"
      and t: "dict_get r ''text'' = Some (PStr t)"
      and p: "dict_get r ''preview'' = Some (PDict kvs)" and k: "kvs \<noteq> []"
      by blast
    from chat_found [OF Inr Some g t p k, of now] assms(2) obtain u a where
      sc: "session_coll db' = session_coll db"
      and mc: "message_coll db' = message_coll db @ [u, a]"
      and su: "m_session_id u = session_id" and sa: "m_session_id a = session_id"
      and n: "next_oid db' = Suc (Suc (Suc (next_oid db)))"
      by auto
    from find_one_session_id [OF Some] assms(1) obtain j where
      j: "j < next_oid db" "oid = new_object_id j"
      unfolding store_inv_def by blast
    have a: "\<forall>x\<in>set (session_coll db'). \<exists>k<next_oid db'. s_id x = new_object_id k"
    proof
      fix x assume "x \<in> set (session_coll db')"
      then obtain k where "k < next_oid db" "s_id x = new_object_id k"
        using assms(1) sc unfolding store_inv_def by auto
      then show "\<exists>k<next_oid db'. s_id x = new_object_id k"
        using n by (intro exI [of _ k]) simp
    qed
    have b: "\<forall>x\<in>set (message_coll db'). \<exists>k<next_oid db'. ObjectId (m_session_id x) = Inr (new_object_id k)"
    proof
      fix x assume "x \<in> set (message_coll db')"
      then have "x \<in> set (message_coll db) \<or> x = u \<or> x = a" using mc by auto
      then show "\<exists>k<next_oid db'. ObjectId (m_session_id x) = Inr (new_object_id k)"
      proof
        assume "x \<in> set (message_coll db)"
        then obtain k where "k < next_oid db" "ObjectId (m_session_id x) = Inr (new_object_id k)"
          using assms(1) unfolding store_inv_def by blast
        then show ?thesis using n by (intro exI [of _ k]) simp
      next
        assume "x = u \<or> x = a"
        then have "m_session_id x = session_id" using su sa by blast
        then show ?thesis using Inr j n by (intro exI [of _ j]) simp
      qed
    qed
    show ?thesis unfolding store_inv_def using a b by blast
  qed
qed

lemma fresh_session_has_no_messages:
  assumes "store_inv db" and "next_oid db < 16 ^ 24"
  shows "filter (\<lambda>d. m_session_id d = new_object_id (next_oid db)) (message_coll db) = []"
proof -
  have "m_session_id x \<noteq> new_object_id (next_oid db)" if x: "x \<in> set (message_coll db)" for x
  proof
    assume e: "m_session_id x = new_object_id (next_oid db)"
    from x assms(1) obtain k where k: "k < next_oid db"
      and o: "ObjectId (m_session_id x) = Inr (new_object_id k)"
      unfolding store_inv_def by blast
    from o e have "new_object_id (next_oid db) = new_object_id k"
      by (simp add: ObjectId_new_object_id)
    moreover have "k < 16 ^ 24" using k assms(2) by simp
    ultimately have "next_oid db = k"
      using assms(2) new_object_id_inj by blast
    then show False using k by simp
  qed
  then show ?thesis unfolding filter_empty_conv by blast
qed

text \<open>
  C6: in a store that satisfies the referential integrity kept by the handlers and has an
  unused 12-byte identifier left, \<^verbatim>\<open>create_session\<close> appends one session record with
  the requested mode and then one message with role "system" and the content
  "CoPilot session created for m mode."; \<^verbatim>\<open>list_messages\<close> on the returned
  identifier gives exactly that one message. The type of the request restricts the mode
  to the three valid ones.
\<close>

theorem create_session_seeds_one_system_message:
  assumes "store_inv db" and "next_oid db < 16 ^ 24"
  shows "\<exists>db' sid s m. create_session now db payload = (db', sid)
    \<and> session_coll db' = session_coll db @ [s]
    \<and> s_id s = sid \<and> s_mode s = Some (mode_str (csr_mode payload)) \<and> s_status s = lit ''active''
    \<and> message_coll db' = message_coll db @ [m]
    \<and> m_session_id m = sid \<and> m_role m = lit ''system''
    \<and> m_content m = lit ''CoPilot session created for '' @ mode_str (csr_mode payload) @ lit '' mode.''
    \<and> list_messages db' sid = [m]
    \<and> length (list_messages db' sid) = 1"
proof -
  let ?sid = "new_object_id (next_oid db)"
  from create_session_result [of now db payload] obtain db' s m where
    c: "create_session now db payload = (db', ?sid)"
    and sc: "session_coll db' = session_coll db @ [s]"
    and s: "s_id s = ?sid" "s_mode s = Some (mode_str (csr_mode payload))" "s_status s = lit ''active''"
    and mc: "message_coll db' = message_coll db @ [m]"
    and m: "m_session_id m = ?sid" "m_role m = lit ''system''"
      "m_content m = lit ''CoPilot session created for '' @ mode_str (csr_mode payload) @ lit '' mode.''"
    by auto
  have "list_messages db' ?sid = [m]"
    using fresh_session_has_no_messages [OF assms] mc m(1)
    by (simp add: list_messages_def get_documents_message_def coerce_oid_def)
  then show ?thesis using c sc s mc m by auto
qed

subsection \<open>Chat on an existing session\<close>

lemma chat_existing_session:
  assumes "ObjectId session_id = Inr oid" and "find_one_session db oid = Some sess"
  shows "\<exists>db' r t kvs u a pd.
      chat ucd now db session_id content =
        (db', Inr \<lparr>cr_session_id = session_id, cr_messages = list_messages db' session_id,
                   cr_preview = Some (PDict kvs)\<rparr>)
      \<and> generate_assistant_reply ucd (session_mode sess) content = Inr r
      \<and> dict_get r ''text'' = Some (PStr t)
      \<and> dict_get r ''preview'' = Some (PDict kvs) \<and> kvs \<noteq> []
      \<and> session_coll db' = session_coll db
      \<and> message_coll db' = message_coll db @ [u, a]
      \<and> m_session_id u = session_id \<and> m_role u = lit ''user'' \<and> m_content u = content
      \<and> m_session_id a = session_id \<and> m_role a = lit ''assistant'' \<and> m_content a = t
      \<and> m_meta a = Some [(''mode'', session_mode sess)]
      \<and> preview_coll db' = preview_coll db @ [pd]
      \<and> p_session_id pd = session_id \<and> p_mode pd = session_mode sess \<and> p_content pd = PDict kvs"
proof -
  from generate_shape [of ucd "session_mode sess" "content"] obtain r t kvs where
    g: "generate_assistant_reply ucd (session_mode sess) content = Inr r"
    and t: "dict_get r ''text'' = Some (PStr t)"
    and p: "dict_get r ''preview'' = Some (PDict kvs)" and k: "kvs \<noteq> []"
    by blast
  from chat_found [OF assms g t p k, of now] obtain db' where
    c: "chat ucd now db session_id content =
          (db', Inr \<lparr>cr_session_id = session_id, cr_messages = list_messages db' session_id,
                     cr_preview = Some (PDict kvs)\<rparr>)"
    and sc: "session_coll db' = session_coll db"
    and mc: "message_coll db' = message_coll db @
             [\<lparr>m_id = new_object_id (next_oid db), m_session_id = session_id, m_role = lit ''user'',
               m_content = content, m_meta = None,
               m_created_at = now 0, m_updated_at = now 0\<rparr>,
              \<lparr>m_id = new_object_id (Suc (next_oid db)), m_session_id = session_id,
               m_role = lit ''assistant'', m_content = t,
               m_meta = Some [(''mode'', session_mode sess)],
               m_created_at = now 1, m_updated_at = now 1\<rparr>]"
    and pc: "preview_coll db' = preview_coll db @
             [\<lparr>p_id = new_object_id (Suc (Suc (next_oid db))), p_session_id = session_id,
               p_mode = session_mode sess, p_content = PDict kvs,
               p_created_at = now 2, p_updated_at = now 3\<rparr>]"
    by blast
  show ?thesis
    apply (rule exI [of _ db'])
    apply (rule exI [of _ r])
    apply (rule exI [of _ t])
    apply (rule exI [of _ kvs])
    apply (rule exI [of _ "\<lparr>m_id = new_object_id (next_oid db), m_session_id = session_id, m_role = lit ''user'',
               m_content = content, m_meta = None,
               m_created_at = now 0, m_updated_at = now 0\<rparr>"])
    apply (rule exI [of _ "\<lparr>m_id = new_object_id (Suc (next_oid db)), m_session_id = session_id,
               m_role = lit ''assistant'', m_content = t,
               m_meta = Some [(''mode'', session_mode sess)],
               m_created_at = now 1, m_updated_at = now 1\<rparr>"])
    apply (rule exI [of _ "\<lparr>p_id = new_object_id (Suc (Suc (next_oid db))), p_session_id = session_id,
               p_mode = session_mode sess, p_content = PDict kvs,
               p_created_at = now 2, p_updated_at = now 3\<rparr>"])
    using c g t p k sc mc pc by simp
qed



text \<open>
  C8: when the session id resolves to a stored session, \<^verbatim>\<open>chat\<close> writes exactly one
  preview record; its mode is the mode read from that session document in the same call,
  and the assistant message written in the call carries the same mode in its meta
  mapping.
\<close>

theorem chat_preview_mode_is_session_mode:
  assumes "ObjectId session_id = Inr oid" and "find_one_session db oid = Some sess"
  shows "\<exists>db' resp u a pd.
      chat ucd now db session_id content = (db', Inr resp)
      \<and> s_id sess = oid
      \<and> preview_coll db' = preview_coll db @ [pd]
      \<and> p_session_id pd = session_id
      \<and> p_mode pd = session_mode sess
      \<and> (\<forall>m. s_mode sess = Some m \<longrightarrow> p_mode pd = m)
      \<and> message_coll db' = message_coll db @ [u, a]
      \<and> m_role a = lit ''assistant''
      \<and> m_meta a = Some [(''mode'', p_mode pd)]"
proof -
  from chat_existing_session [OF assms, of ucd now "content"] obtain db' kvs u a pd where
    c: "chat ucd now db session_id content =
        (db', Inr \<lparr>cr_session_id = session_id, cr_messages = list_messages db' session_id,
                   cr_preview = Some (PDict kvs)\<rparr>)"
    and mc: "message_coll db' = message_coll db @ [u, a]"
    and a: "m_role a = lit ''assistant''" "m_meta a = Some [(''mode'', session_mode sess)]"
    and pc: "preview_coll db' = preview_coll db @ [pd]"
    and pd: "p_session_id pd = session_id" "p_mode pd = session_mode sess"
    by blast
  have o: "s_id sess = oid"
    using find_one_session_id [OF assms(2)] by blast
  have m: "\<forall>m. s_mode sess = Some m \<longrightarrow> p_mode pd = m"
    using pd(2) by (simp add: session_mode_def)
  show ?thesis
    using c o pc pd m mc a by auto
qed




text \<open>
  C10: for every mode and prompt the generator returns a preview that is a non-empty
  dictionary, hence true in the test of \<^verbatim>\<open>chat\<close>; every successful \<^verbatim>\<open>chat\<close>
  call appends exactly one preview record, and the preview of its response is that
  dictionary, not null.
\<close>

theorem preview_never_null:
  "(\<exists>r kvs. generate_assistant_reply ucd mode prompt = Inr r
       \<and> dict_get r ''preview'' = Some (PDict kvs) \<and> kvs \<noteq> [] \<and> py_truthy (PDict kvs))
   \<and> (chat ucd now db session_id content = (db', Inr resp) \<longrightarrow>
       (\<exists>pd kvs. preview_coll db' = preview_coll db @ [pd]
          \<and> p_content pd = PDict kvs \<and> kvs \<noteq> []
          \<and> cr_preview resp = Some (PDict kvs)))"
proof (intro conjI impI)
  show "\<exists>r kvs. generate_assistant_reply ucd mode prompt = Inr r
       \<and> dict_get r ''preview'' = Some (PDict kvs) \<and> kvs \<noteq> [] \<and> py_truthy (PDict kvs)"
    using generate_shape_truthy [of ucd mode prompt] by blast
next
  assume c: "chat ucd now db session_id content = (db', Inr resp)"
  from chat_success_cases [OF c] obtain oid sess where
    o: "ObjectId session_id = Inr oid" and f: "find_one_session db oid = Some sess"
    by blast
  from chat_existing_session [OF o f, of ucd now "content"] c
  show "\<exists>pd kvs. preview_coll db' = preview_coll db @ [pd]
          \<and> p_content pd = PDict kvs \<and> kvs \<noteq> []
          \<and> cr_preview resp = Some (PDict kvs)"
    by auto
qed

subsection \<open>The handlers on the example stores\<close>

lemma demo_create: "create_session demo_now empty_store demo_request = (demo_store, demo_session_id)"
  by (simp add: demo_store_def demo_session_id_def)

lemma empty_store_bound: "next_oid empty_store < 16 ^ 24"
  by (simp add: empty_store_def)

lemma demo_session_id_eq: "demo_session_id = new_object_id 0"
proof -
  from create_session_result [of demo_now empty_store demo_request]
  have "snd (create_session demo_now empty_store demo_request) = new_object_id (next_oid empty_store)"
    by auto
  then show ?thesis by (simp add: demo_session_id_def empty_store_def)
qed

lemma demo_ObjectId: "ObjectId demo_session_id = Inr demo_session_id"
  by (simp add: demo_session_id_eq ObjectId_new_object_id)

lemma demo_colls:
  "session_coll demo_store =
     [\<lparr>s_id = demo_session_id, s_user_id = None, s_mode = Some (lit ''jobs''), s_title = None,
       s_status = lit ''active'', s_created_at = demo_now 0, s_updated_at = demo_now 0\<rparr>]
   \<and> message_coll demo_store =
     [\<lparr>m_id = new_object_id (Suc 0), m_session_id = demo_session_id, m_role = lit ''system'',
       m_content = lit ''CoPilot session created for '' @ lit ''jobs'' @ lit '' mode.'', m_meta = None,
       m_created_at = demo_now 1, m_updated_at = demo_now 1\<rparr>]
   \<and> preview_coll demo_store = []"
proof -
  from create_session_result [of demo_now empty_store demo_request]
  obtain db' where c: "create_session demo_now empty_store demo_request = (db', new_object_id (next_oid empty_store))"
    and sc: "session_coll db' = session_coll empty_store @
          [\<lparr>s_id = new_object_id (next_oid empty_store), s_user_id = csr_user_id demo_request,
            s_mode = Some (mode_str (csr_mode demo_request)), s_title = csr_title demo_request,
            s_status = lit ''active'', s_created_at = demo_now 0, s_updated_at = demo_now 0\<rparr>]"
    and mc: "message_coll db' = message_coll empty_store @
          [\<lparr>m_id = new_object_id (Suc (next_oid empty_store)), m_session_id = new_object_id (next_oid empty_store),
            m_role = lit ''system'',
            m_content = lit ''CoPilot session created for '' @ mode_str (csr_mode demo_request) @ lit '' mode.'',
            m_meta = None, m_created_at = demo_now 1, m_updated_at = demo_now 1\<rparr>]"
    and pc: "preview_coll db' = preview_coll empty_store"
    by blast
  have d: "db' = demo_store" using c by (simp add: demo_store_def)
  show ?thesis
    using sc mc pc unfolding d by (simp add: demo_session_id_eq empty_store_def demo_request_def)
qed

lemma seed_jobs: "lit ''CoPilot session created for '' @ lit ''jobs'' @ lit '' mode.'' = lit ''CoPilot session created for jobs mode.''"
  by (simp add: lit_def)

lemma demo_find:
  "find_one_session demo_store demo_session_id =
     Some \<lparr>s_id = demo_session_id, s_user_id = None, s_mode = Some (lit ''jobs''), s_title = None,
       s_status = lit ''active'', s_created_at = demo_now 0, s_updated_at = demo_now 0\<rparr>"
  by (simp add: find_one_session_def demo_colls)


text \<open>
  C6 at the empty store and a request for a jobs session: the new session lists one
  message, the system message for jobs mode.
\<close>

theorem create_session_seeds_one_system_message_witness:
  "store_inv empty_store \<and> next_oid empty_store < 16 ^ 24
   \<and> map m_role (list_messages demo_store demo_session_id) = [lit ''system'']
   \<and> map m_content (list_messages demo_store demo_session_id) = [lit ''CoPilot session created for jobs mode.'']"
proof -
  from create_session_seeds_one_system_message [OF store_inv_empty empty_store_bound, of demo_now demo_request]
  obtain m where "list_messages demo_store demo_session_id = [m]" "m_role m = lit ''system''"
    "m_content m = lit ''CoPilot session created for '' @ mode_str (csr_mode demo_request) @ lit '' mode.''"
    unfolding demo_create by auto
  then show ?thesis
    using store_inv_empty empty_store_bound by (simp add: demo_request_def seed_jobs)
qed







lemma ab_session_id_handed_out: "ab_session_id = new_object_id 171"
  by code_simp

lemma ab_store_inv: "store_inv ab_store"
proof -
  have a: "\<exists>k<173. ab_session_id = new_object_id k"
    using ab_session_id_handed_out by (intro exI [of _ 171]) simp
  have b: "\<exists>k<173. ObjectId ab_session_id = Inr (new_object_id k)"
    using ObjectId_new_object_id [of 171] unfolding ab_session_id_handed_out
    by (intro exI [of _ 171]) simp
  show ?thesis
    unfolding store_inv_def using a b by (simp add: ab_store_def)
qed

text \<open>
  C8 at the store with one jobs session: the one preview written has mode "jobs", and so
  has the meta mapping of the assistant message.
\<close>

theorem chat_preview_mode_is_session_mode_witness:
  "\<forall>ucd now.
     ObjectId demo_session_id = Inr demo_session_id
     \<and> find_one_session demo_store demo_session_id \<noteq> None
     \<and> (\<exists>db' resp pd a. chat ucd now demo_store demo_session_id (lit ''data analyst'') = (db', Inr resp)
          \<and> preview_coll db' = [pd] \<and> p_mode pd = lit ''jobs''
          \<and> last (message_coll db') = a \<and> m_meta a = Some [(''mode'', lit ''jobs'')])"
proof (intro allI)
  fix ucd :: "pystr \<Rightarrow> pystr" and now :: "nat \<Rightarrow> nat"
  from chat_preview_mode_is_session_mode [OF demo_ObjectId demo_find, of ucd now "lit ''data analyst''"]
  obtain db' resp u a pd where
    c: "chat ucd now demo_store demo_session_id (lit ''data analyst'') = (db', Inr resp)"
    and pc: "preview_coll db' = preview_coll demo_store @ [pd]"
    and pm: "p_mode pd = session_mode \<lparr>s_id = demo_session_id, s_user_id = None,
               s_mode = Some (lit ''jobs''), s_title = None, s_status = lit ''active'',
               s_created_at = demo_now 0, s_updated_at = demo_now 0\<rparr>"
    and mc: "message_coll db' = message_coll demo_store @ [u, a]"
    and am: "m_meta a = Some [(''mode'', p_mode pd)]"
    by blast
  have "preview_coll db' = [pd]" using pc by (simp add: demo_colls)
  moreover have "p_mode pd = lit ''jobs''" using pm by (simp add: session_mode_def)
  moreover have "last (message_coll db') = a" using mc by simp
  ultimately show "ObjectId demo_session_id = Inr demo_session_id
     \<and> find_one_session demo_store demo_session_id \<noteq> None
     \<and> (\<exists>db' resp pd a. chat ucd now demo_store demo_session_id (lit ''data analyst'') = (db', Inr resp)
          \<and> preview_coll db' = [pd] \<and> p_mode pd = lit ''jobs''
          \<and> last (message_coll db') = a \<and> m_meta a = Some [(''mode'', lit ''jobs'')])"
    using c am demo_ObjectId demo_find by auto
qed

text \<open>
  C10 at the store with one jobs session: the call succeeds, appends one preview and
  returns it.
\<close>

theorem preview_never_null_witness:
  "\<forall>ucd now. \<exists>db' resp pd kvs.
     chat ucd now demo_store demo_session_id (lit ''data analyst'') = (db', Inr resp)
     \<and> preview_coll db' = preview_coll demo_store @ [pd]
     \<and> p_content pd = PDict kvs \<and> kvs \<noteq> [] \<and> cr_preview resp = Some (PDict kvs)"
proof (intro allI)
  fix ucd :: "pystr \<Rightarrow> pystr" and now :: "nat \<Rightarrow> nat"
  from chat_existing_session [OF demo_ObjectId demo_find, of ucd now "lit ''data analyst''"]
  obtain db' resp where c: "chat ucd now demo_store demo_session_id (lit ''data analyst'') = (db', Inr resp)"
    by blast
  from preview_never_null [of ucd "lit ''jobs''" "lit ''data analyst''" now demo_store demo_session_id
      "lit ''data analyst''" db' resp] c
  show "\<exists>db' resp pd kvs.
     chat ucd now demo_store demo_session_id (lit ''data analyst'') = (db', Inr resp)
     \<and> preview_coll db' = preview_coll demo_store @ [pd]
     \<and> p_content pd = PDict kvs \<and> kvs \<noteq> [] \<and> cr_preview resp = Some (PDict kvs)"
    by blast
qed


end
